theory Spec2Isabelle
  imports Main "HOL-Library.Multiset"
begin

section \<open>Church confirmation records: the request handlers of main.py\<close>

text \<open>
  The handlers of \<^verbatim>\<open>main.py\<close> are embedded as functions over an explicit
  session (the dictionary \<^verbatim>\<open>request.session\<close>) and an explicit database (the two
  tables of \<^verbatim>\<open>models.py\<close>). A raised exception is the left summand of the result;
  a handler that raises leaves session and committed database as they were, since every
  \<^verbatim>\<open>raise\<close> of the source precedes the handler's \<^verbatim>\<open>db.commit()\<close> and its
  writes to the session. Python strings are lists of characters with code points below
  256; random values (the CSRF token) and the clock are arguments.
\<close>

subsection \<open>Strings\<close>

text \<open>\<^verbatim>\<open>str.isspace\<close> on the code points below 256.\<close>

definition isspace :: "char \<Rightarrow> bool" where
  "isspace c \<longleftrightarrow>
     (let n = (of_char c :: nat)
      in (9 \<le> n \<and> n \<le> 13) \<or> (28 \<le> n \<and> n \<le> 32) \<or> n = 133 \<or> n = 160)"

text \<open>\<^verbatim>\<open>str.strip()\<close>: leading and trailing whitespace removed.\<close>

definition strip :: "string \<Rightarrow> string" where
  "strip s = rev (dropWhile isspace (rev (dropWhile isspace s)))"

definition isdigit :: "char \<Rightarrow> bool" where
  "isdigit c \<longleftrightarrow> (let n = (of_char c :: nat) in 48 \<le> n \<and> n \<le> 57)"

definition digit_val :: "char \<Rightarrow> nat" where
  "digit_val c = of_char c - 48"

definition digit_char :: "nat \<Rightarrow> char" where
  "digit_char n = char_of (48 + n mod 10)"

text \<open>ASCII lower-casing, as SQLite's \<^verbatim>\<open>lower()\<close> does it.\<close>

definition lower_char :: "char \<Rightarrow> char" where
  "lower_char c =
     (let n = (of_char c :: nat) in if 65 \<le> n \<and> n \<le> 90 then char_of (n + 32) else c)"

subsection \<open>Dates\<close>

datatype date = Date (year: nat) (month: nat) (day: nat)

datatype datetime =
  DateTime (dt_date: date) (hour: nat) (minute: nat) (second: nat) (microsecond: nat)

definition is_leap :: "nat \<Rightarrow> bool" where
  "is_leap y \<longleftrightarrow> y mod 4 = 0 \<and> (y mod 100 \<noteq> 0 \<or> y mod 400 = 0)"

definition days_in_month :: "nat \<Rightarrow> nat \<Rightarrow> nat" where
  "days_in_month y m =
     (if m = 2 then (if is_leap y then 29 else 28)
      else if m = 4 \<or> m = 6 \<or> m = 9 \<or> m = 11 then 30 else 31)"

text \<open>The check of the \<^verbatim>\<open>datetime.date\<close> constructor (it raises ValueError otherwise).\<close>

definition valid_date :: "nat \<Rightarrow> nat \<Rightarrow> nat \<Rightarrow> bool" where
  "valid_date y m d \<longleftrightarrow>
     1 \<le> y \<and> y \<le> 9999 \<and> 1 \<le> m \<and> m \<le> 12 \<and> 1 \<le> d \<and> d \<le> days_in_month y m"

text \<open>
  \<^verbatim>\<open>datetime.strptime(value, "%Y-%m-%d")\<close>. The format compiles to the regular
  expression
  \<^verbatim>\<open>(?P<Y>\d\d\d\d)-(?P<m>1[0-2]|0[1-9]|[1-9])-(?P<d>3[0-1]|[1-2]\d|0[1-9]|[1-9]| [1-9])\<close>,
  matched at the start of the string. Each group is modelled by the list of its possible
  matches (value and rest of the input) in the order the alternatives are tried, so that
  the head of the combined list is the match a backtracking matcher finds.
\<close>

definition match_Y :: "string \<Rightarrow> (nat \<times> string) list" where
  "match_Y s =
     (case s of
        a # b # c # d # r \<Rightarrow>
          if isdigit a \<and> isdigit b \<and> isdigit c \<and> isdigit d
          then [(1000 * digit_val a + 100 * digit_val b + 10 * digit_val c + digit_val d, r)]
          else []
      | _ \<Rightarrow> [])"

definition match_lit :: "char \<Rightarrow> string \<Rightarrow> string list" where
  "match_lit x s = (case s of c # r \<Rightarrow> if c = x then [r] else [] | [] \<Rightarrow> [])"

text \<open>Two characters \<open>a\<close>, \<open>b\<close> with \<open>a\<close> in \<open>[alo-ahi]\<close> and \<open>b\<close> in \<open>[blo-bhi]\<close>.\<close>

definition match_two :: "nat \<Rightarrow> nat \<Rightarrow> nat \<Rightarrow> nat \<Rightarrow> string \<Rightarrow> (nat \<times> string) list" where
  "match_two alo ahi blo bhi s =
     (case s of
        a # b # r \<Rightarrow>
          if isdigit a \<and> isdigit b \<and> alo \<le> digit_val a \<and> digit_val a \<le> ahi
             \<and> blo \<le> digit_val b \<and> digit_val b \<le> bhi
          then [(10 * digit_val a + digit_val b, r)] else []
      | _ \<Rightarrow> [])"

text \<open>One character in \<open>[1-9]\<close>.\<close>

definition match_one :: "string \<Rightarrow> (nat \<times> string) list" where
  "match_one s =
     (case s of
        a # r \<Rightarrow> if isdigit a \<and> 1 \<le> digit_val a then [(digit_val a, r)] else []
      | [] \<Rightarrow> [])"

definition match_m :: "string \<Rightarrow> (nat \<times> string) list" where
  "match_m s = match_two 1 1 0 2 s @ match_two 0 0 1 9 s @ match_one s"

definition match_d :: "string \<Rightarrow> (nat \<times> string) list" where
  "match_d s =
     match_two 3 3 0 1 s @ match_two 1 2 0 9 s @ match_two 0 0 1 9 s @ match_one s
     @ concat (map match_one (match_lit CHR '' '' s))"

definition regex_matches :: "string \<Rightarrow> ((nat \<times> nat \<times> nat) \<times> string) list" where
  "regex_matches s =
     concat (map (\<lambda>(y, r1).
       concat (map (\<lambda>r2.
         concat (map (\<lambda>(m, r3).
           concat (map (\<lambda>r4.
             map (\<lambda>(d, r5). ((y, m, d), r5)) (match_d r4))
           (match_lit CHR ''-'' r3)))
         (match_m r2)))
       (match_lit CHR ''-'' r1)))
     (match_Y s))"

text \<open>
  \<open>None\<close> is the ValueError of strptime: no match, unconverted data after the match,
  or a day the calendar does not have.
\<close>

definition strptime :: "string \<Rightarrow> date option" where
  "strptime s =
     (case regex_matches s of
        [] \<Rightarrow> None
      | ((y, m, d), r) # _ \<Rightarrow>
          if r \<noteq> [] then None
          else if valid_date y m d then Some (Date y m d) else None)"

subsection \<open>Errors\<close>

text \<open>
  \<^verbatim>\<open>HTTPException(status_code, detail, headers)\<close>, and the ValueError that the bcrypt
  package raises.
\<close>

datatype error =
  HTTPException nat "string option" "(string \<times> string) list"
  | ValueError

definition Unauthenticated :: error where
  "Unauthenticated = HTTPException 303 None [(''Location'', ''/login'')]"

definition CsrfMismatch :: error where
  "CsrfMismatch = HTTPException 400 (Some ''Invalid CSRF token'') []"

definition ValidationError :: "string \<Rightarrow> error" where
  "ValidationError field_name =
     HTTPException 400 (Some (''Invalid date format for '' @ field_name @ ''. Use YYYY-MM-DD'')) []"

definition NotFound :: error where
  "NotFound = HTTPException 404 (Some ''Record not found'') []"

subsection \<open>Session and CSRF helpers\<close>

record session =
  user_id :: "int option"
  username :: "string option"
  csrf_token :: "string option"

definition empty_session :: session where
  "empty_session = \<lparr>user_id = None, username = None, csrf_token = None\<rparr>"

text \<open>\<^verbatim>\<open>if not request.session.get("user_id")\<close>: a missing id and the id 0 are falsy.\<close>

definition login_required :: "session \<Rightarrow> error + unit" where
  "login_required request =
     (case user_id request of
        None \<Rightarrow> Inl Unauthenticated
      | Some u \<Rightarrow> if u = 0 then Inl Unauthenticated else Inr ())"

text \<open>The token drawn by \<^verbatim>\<open>secrets.token_urlsafe(32)\<close> is the argument \<open>token\<close>.\<close>

definition generate_csrf_token :: "session \<Rightarrow> string \<Rightarrow> session" where
  "generate_csrf_token request token = request\<lparr>csrf_token := Some token\<rparr>"

text \<open>\<^verbatim>\<open>if not session_token or csrf_token != session_token: raise\<close>.\<close>

definition validate_csrf :: "session \<Rightarrow> string \<Rightarrow> error + unit" where
  "validate_csrf request token =
     (case csrf_token request of
        None \<Rightarrow> Inl CsrfMismatch
      | Some session_token \<Rightarrow>
          if session_token = [] \<or> token \<noteq> session_token then Inl CsrfMismatch else Inr ())"

definition parse_date :: "string \<Rightarrow> string \<Rightarrow> error + date" where
  "parse_date v field_name =
     (case strptime v of None \<Rightarrow> Inl (ValidationError field_name) | Some d \<Rightarrow> Inr d)"

subsection \<open>Password verification (auth.py)\<close>

text \<open>\<^verbatim>\<open>str.encode("utf-8")\<close> on code points below 256: one byte below 128, else two.\<close>

definition encode_utf8 :: "string \<Rightarrow> string" where
  "encode_utf8 s =
     concat (map (\<lambda>c. let n = (of_char c :: nat)
                         in if n < 128 then [c] else [char_of (192 + n div 64), char_of (128 + n mod 64)]) s)"

text \<open>
  \<^verbatim>\<open>bcrypt.checkpw\<close> belongs to the bcrypt package, which is no part of the repository.
  Of the package only this much is modelled: a hash string without any \<^verbatim>\<open>$\<close> has no
  version, cost and salt fields, and the package raises \<^verbatim>\<open>ValueError\<close> on it. Everything
  else the package does (the salt syntax in detail, the hash itself, the comparison) is
  the parameter \<open>bcrypt\<close>, which may raise as well.
\<close>

type_synonym bcrypt = "string \<Rightarrow> string \<Rightarrow> error + bool"

definition checkpw :: "bcrypt \<Rightarrow> string \<Rightarrow> string \<Rightarrow> error + bool" where
  "checkpw bcrypt password hashed_password =
     (if CHR ''$'' \<notin> set hashed_password then Inl ValueError
      else bcrypt password hashed_password)"

text \<open>The source has no exception handler around the call.\<close>

definition verify_password :: "bcrypt \<Rightarrow> string \<Rightarrow> string \<Rightarrow> error + bool" where
  "verify_password bcrypt password hashed_password =
     checkpw bcrypt (encode_utf8 password) (encode_utf8 hashed_password)"

subsection \<open>The tables (models.py)\<close>

record user =
  u_id :: int
  u_username :: string
  password_hash :: string
  u_created_at :: datetime

record confirmation =
  rec_id :: int
  full_name :: string
  date_of_birth :: date
  confirmation_date :: date
  church_name :: string
  priest_name :: string
  sponsor_name :: string
  remarks :: string
  created_at :: datetime

text \<open>The committed database. A table is the list of its rows in the order of insertion.\<close>

record db =
  users :: "user list"
  confirmations :: "confirmation list"

text \<open>\<^verbatim>\<open>db.get(Confirmation, record_id)\<close>: the row with this primary key, if any.\<close>

definition db_get :: "db \<Rightarrow> int \<Rightarrow> confirmation option" where
  "db_get d record_id = find (\<lambda>r. rec_id r = record_id) (confirmations d)"

text \<open>
  The id SQLite gives a new row of a table with an integer primary key: one more than
  the largest id in use, 1 in an empty table.
\<close>

definition next_id :: "confirmation list \<Rightarrow> int" where
  "next_id rows = foldr max (map rec_id rows) 0 + 1"

subsection \<open>Requests and responses\<close>

text \<open>The string parameters that a create or update request binds from the form.\<close>

record form =
  form_full_name :: string
  form_date_of_birth :: string
  form_confirmation_date :: string
  form_church_name :: string
  form_priest_name :: string
  form_sponsor_name :: string
  form_remarks :: string

datatype val = VStr string | VRecord confirmation | VRecords "confirmation list"

datatype response =
  RedirectResponse string nat
  | TemplateResponse string "(string \<times> val) list" nat
  | StreamingResponse string

type_synonym outcome = "error + (response \<times> session \<times> db)"

text \<open>
  What a request leaves behind. When the handler raises, the session is as before, and
  \<^verbatim>\<open>get_db\<close> closes the database session without a commit: the committed database is
  as before.
\<close>

definition run_request :: "session \<Rightarrow> db \<Rightarrow> outcome \<Rightarrow> (error + response) \<times> session \<times> db" where
  "run_request request d res =
     (case res of
        Inl e \<Rightarrow> (Inl e, request, d)
      | Inr (resp, request', d') \<Rightarrow> (Inr resp, request', d'))"

fun str_nat :: "nat \<Rightarrow> string" where
  "str_nat n = (if n < 10 then [digit_char n] else str_nat (n div 10) @ [digit_char n])"

definition str_int :: "int \<Rightarrow> string" where
  "str_int i = (if i < 0 then CHR ''-'' # str_nat (nat (- i)) else str_nat (nat i))"

subsection \<open>Authentication routes\<close>

definition login_failed :: "session \<Rightarrow> string \<Rightarrow> db \<Rightarrow> outcome" where
  "login_failed request new_csrf d =
     Inr (TemplateResponse ''login.html''
            [(''error'', VStr ''Invalid username or password''), (''csrf_token'', VStr new_csrf)] 400,
          generate_csrf_token request new_csrf, d)"

text \<open>
  \<^verbatim>\<open>POST /login\<close>. \<open>new_csrf\<close> is the token drawn when the login fails. The filter on
  the unique column \<^verbatim>\<open>username\<close> finds at most one row.
\<close>

definition login :: "bcrypt \<Rightarrow> session \<Rightarrow> string \<Rightarrow> string \<Rightarrow> string \<Rightarrow> string \<Rightarrow> db \<Rightarrow> outcome" where
  "login bcrypt request uname password token new_csrf d =
     (case validate_csrf request token of
        Inl e \<Rightarrow> Inl e
      | Inr _ \<Rightarrow>
         (case find (\<lambda>u. u_username u = strip uname) (users d) of
            None \<Rightarrow> login_failed request new_csrf d
          | Some u \<Rightarrow>
             (case verify_password bcrypt password (password_hash u) of
                Inl e \<Rightarrow> Inl e
              | Inr ok \<Rightarrow>
                  if \<not> ok then login_failed request new_csrf d
                  else Inr (RedirectResponse ''/dashboard'' 303,
                            request\<lparr>user_id := Some (u_id u), username := Some (u_username u)\<rparr>, d))))"


subsection \<open>Confirmation CRUD\<close>

text \<open>\<^verbatim>\<open>POST /confirmations/new\<close>. \<open>now\<close> is the clock read for \<^verbatim>\<open>created_at\<close>.\<close>

definition create_confirmation :: "session \<Rightarrow> form \<Rightarrow> string \<Rightarrow> datetime \<Rightarrow> db \<Rightarrow> outcome" where
  "create_confirmation request f token now d =
     (case login_required request of
        Inl e \<Rightarrow> Inl e
      | Inr _ \<Rightarrow>
     (case validate_csrf request token of
        Inl e \<Rightarrow> Inl e
      | Inr _ \<Rightarrow>
     (case parse_date (form_date_of_birth f) ''date_of_birth'' of
        Inl e \<Rightarrow> Inl e
      | Inr dob \<Rightarrow>
     (case parse_date (form_confirmation_date f) ''confirmation_date'' of
        Inl e \<Rightarrow> Inl e
      | Inr cdate \<Rightarrow>
          let new_record =
            \<lparr>rec_id = next_id (confirmations d),
             full_name = strip (form_full_name f),
             date_of_birth = dob,
             confirmation_date = cdate,
             church_name = strip (form_church_name f),
             priest_name = strip (form_priest_name f),
             sponsor_name = strip (form_sponsor_name f),
             remarks = strip (form_remarks f),
             created_at = now\<rparr>
          in Inr (RedirectResponse ''/confirmations'' 303, request,
                  d\<lparr>confirmations := confirmations d @ [new_record]\<rparr>)))))"

text \<open>\<^verbatim>\<open>GET /confirmations/{record_id}\<close>.\<close>

definition view_confirmation :: "session \<Rightarrow> int \<Rightarrow> string \<Rightarrow> db \<Rightarrow> outcome" where
  "view_confirmation request record_id new_csrf d =
     (case login_required request of
        Inl e \<Rightarrow> Inl e
      | Inr _ \<Rightarrow>
     (case db_get d record_id of
        None \<Rightarrow> Inl NotFound
      | Some r \<Rightarrow>
          Inr (TemplateResponse ''confirmation_detail.html''
                 [(''record'', VRecord r), (''csrf_token'', VStr new_csrf)] 200,
               generate_csrf_token request new_csrf, d)))"

text \<open>
  \<^verbatim>\<open>POST /confirmations/{record_id}/edit\<close>. The assignments to the loaded row reach the
  database with the commit at the end only.
\<close>

definition update_confirmation :: "session \<Rightarrow> int \<Rightarrow> form \<Rightarrow> string \<Rightarrow> db \<Rightarrow> outcome" where
  "update_confirmation request record_id f token d =
     (case login_required request of
        Inl e \<Rightarrow> Inl e
      | Inr _ \<Rightarrow>
     (case validate_csrf request token of
        Inl e \<Rightarrow> Inl e
      | Inr _ \<Rightarrow>
     (case db_get d record_id of
        None \<Rightarrow> Inl NotFound
      | Some r \<Rightarrow>
     (case parse_date (form_date_of_birth f) ''date_of_birth'' of
        Inl e \<Rightarrow> Inl e
      | Inr dob \<Rightarrow>
     (case parse_date (form_confirmation_date f) ''confirmation_date'' of
        Inl e \<Rightarrow> Inl e
      | Inr cdate \<Rightarrow>
          let r' = r\<lparr>full_name := strip (form_full_name f),
                     date_of_birth := dob,
                     confirmation_date := cdate,
                     church_name := strip (form_church_name f),
                     priest_name := strip (form_priest_name f),
                     sponsor_name := strip (form_sponsor_name f),
                     remarks := strip (form_remarks f)\<rparr>
          in Inr (RedirectResponse (''/confirmations/'' @ str_int record_id) 303, request,
                  d\<lparr>confirmations :=
                      map (\<lambda>x. if rec_id x = record_id then r' else x) (confirmations d)\<rparr>))))))"


subsection \<open>Search\<close>

text \<open>
  SQLite's \<^verbatim>\<open>LIKE\<close>, pattern first: \<^verbatim>\<open>%\<close> stands for any run of characters,
  \<^verbatim>\<open>_\<close> for any one character, every other character for itself up to ASCII case.
\<close>

fun like :: "string \<Rightarrow> string \<Rightarrow> bool" where
  "like [] t = (t = [])"
| "like (p # ps) [] = (p = CHR ''%'' \<and> like ps [])"
| "like (p # ps) (c # ts) =
     (if p = CHR ''%'' then like ps (c # ts) \<or> like (p # ps) ts
      else (p = CHR ''_'' \<or> lower_char p = lower_char c) \<and> like ps ts)"






definition date_le :: "date \<Rightarrow> date \<Rightarrow> bool" where
  "date_le a b \<longleftrightarrow>
     year a < year b \<or> (year a = year b \<and> (month a < month b \<or> (month a = month b \<and> day a \<le> day b)))"

text \<open>
  \<^verbatim>\<open>query.order_by(Confirmation.confirmation_date.desc()).all()\<close>: \<open>records\<close> is an
  answer of the engine when it holds the selected rows, each once, by confirmation date
  descending. The query names no second sort key, and SQL leaves the order of rows with
  equal keys to the engine.
\<close>

definition order_by_desc_all :: "confirmation list \<Rightarrow> confirmation list \<Rightarrow> bool" where
  "order_by_desc_all rows records \<longleftrightarrow>
     mset records = mset rows
     \<and> sorted_wrt (\<lambda>a b. date_le (confirmation_date b) (confirmation_date a)) records"


text \<open>Containment of \<open>t\<close> in \<open>s\<close> as a substring, up to ASCII case.\<close>

definition starts_with_ci :: "string \<Rightarrow> string \<Rightarrow> bool" where
  "starts_with_ci t s \<longleftrightarrow>
     length t \<le> length s \<and> map lower_char (take (length t) s) = map lower_char t"

fun contains_ci :: "string \<Rightarrow> string \<Rightarrow> bool" where
  "contains_ci t [] = (t = [])"
| "contains_ci t (c # s) = (starts_with_ci t (c # s) \<or> contains_ci t s)"


subsection \<open>CSV export\<close>









subsection \<open>Example values\<close>

definition example_request :: session where
  "example_request = \<lparr>user_id = Some 1, username = Some ''admin'', csrf_token = Some ''tok''\<rparr>"

definition example_form :: form where
  "example_form =
     \<lparr>form_full_name = ''Jane Doe'', form_date_of_birth = ''2010-01-01'',
      form_confirmation_date = ''2023-05-01'', form_church_name = '' St. Mary '',
      form_priest_name = ''Fr. John'', form_sponsor_name = [], form_remarks = []\<rparr>"

definition example_now :: datetime where
  "example_now = DateTime (Date 2024 1 2) 3 4 5 0"

definition empty_db :: db where
  "empty_db = \<lparr>users = [], confirmations = []\<rparr>"

definition example_record :: confirmation where
  "example_record =
     \<lparr>rec_id = 1, full_name = ''John Smith'', date_of_birth = Date 2009 3 4,
      confirmation_date = Date 2022 6 5, church_name = ''St. Paul'', priest_name = ''Fr. Luke'',
      sponsor_name = ''Ann'', remarks = [], created_at = DateTime (Date 2023 1 1) 10 0 0 0\<rparr>"

definition example_db :: db where
  "example_db = \<lparr>users = [], confirmations = [example_record]\<rparr>"

text \<open>The row that an update leaves in place of \<open>r\<close>.\<close>

definition updated :: "confirmation \<Rightarrow> form \<Rightarrow> date \<Rightarrow> date \<Rightarrow> confirmation" where
  "updated r f dob cdate =
     \<lparr>rec_id = rec_id r, full_name = strip (form_full_name f), date_of_birth = dob,
      confirmation_date = cdate, church_name = strip (form_church_name f),
      priest_name = strip (form_priest_name f), sponsor_name = strip (form_sponsor_name f),
      remarks = strip (form_remarks f), created_at = created_at r\<rparr>"

text \<open>The row that a create request appends.\<close>

definition created :: "int \<Rightarrow> form \<Rightarrow> date \<Rightarrow> date \<Rightarrow> datetime \<Rightarrow> confirmation" where
  "created i f dob cdate now =
     \<lparr>rec_id = i, full_name = strip (form_full_name f), date_of_birth = dob,
      confirmation_date = cdate, church_name = strip (form_church_name f),
      priest_name = strip (form_priest_name f), sponsor_name = strip (form_sponsor_name f),
      remarks = strip (form_remarks f), created_at = now\<rparr>"

definition blank_form :: form where
  "blank_form = example_form\<lparr>form_full_name := ''   ''\<rparr>"

text \<open>A query that holds none of the two wildcards of \<^verbatim>\<open>LIKE\<close>.\<close>

definition no_wildcards :: "string \<Rightarrow> bool" where
  "no_wildcards t \<longleftrightarrow> CHR ''%'' \<notin> set t \<and> CHR ''_'' \<notin> set t"








section \<open>Properties\<close>

subsection \<open>The guards\<close>

lemma validate_csrf_ok_iff:
  "validate_csrf request token = Inr () \<longleftrightarrow> csrf_token request = Some token \<and> token \<noteq> []"
  by (auto simp: validate_csrf_def split: option.splits)



lemma example_request_login [simp]: "login_required example_request = Inr ()"
  by (simp add: login_required_def example_request_def)

lemma example_request_csrf [simp]: "validate_csrf example_request ''tok'' = Inr ()"
  by (simp add: validate_csrf_def example_request_def)

text \<open>
  C10. When the session stores no CSRF token, or stores the empty string, validation
  fails for every submitted token, the empty one included: equality with the stored
  token is not enough, the stored token has to be non-empty.
\<close>

theorem validate_csrf_needs_stored_token:
  "csrf_token request = None \<or> csrf_token request = Some [] \<Longrightarrow>
   validate_csrf request token = Inl CsrfMismatch"
  by (auto simp: validate_csrf_def)

theorem validate_csrf_needs_stored_token_witness:
  "csrf_token (empty_session\<lparr>csrf_token := Some []\<rparr>) = Some []
   \<and> validate_csrf (empty_session\<lparr>csrf_token := Some []\<rparr>) [] = Inl CsrfMismatch"
  using validate_csrf_needs_stored_token [of "empty_session\<lparr>csrf_token := Some []\<rparr>" "[]"]
  by simp




subsection \<open>Update, get and delete\<close>

lemma db_get_rec_id: "db_get d i = Some r \<Longrightarrow> rec_id r = i"
  by (auto simp: db_get_def find_Some_iff)

lemma find_map_same:
  "rec_id r' = i \<Longrightarrow> find (\<lambda>x. rec_id x = i) rows = Some r \<Longrightarrow>
   find (\<lambda>x. rec_id x = i) (map (\<lambda>x. if rec_id x = i then r' else x) rows) = Some r'"
  by (induction rows) (auto split: if_splits)

lemma find_map_other:
  "rec_id r' = i \<Longrightarrow> j \<noteq> i \<Longrightarrow>
   find (\<lambda>x. rec_id x = j) (map (\<lambda>x. if rec_id x = i then r' else x) rows)
     = find (\<lambda>x. rec_id x = j) rows"
  by (induction rows) auto

lemma filter_map_other:
  "rec_id r' = i \<Longrightarrow>
   filter (\<lambda>x. rec_id x \<noteq> i) (map (\<lambda>x. if rec_id x = i then r' else x) rows)
     = filter (\<lambda>x. rec_id x \<noteq> i) rows"
  by (induction rows) auto

lemma example_db_get [simp]: "db_get example_db 1 = Some example_record"
  by (simp add: db_get_def example_db_def example_record_def)

lemma example_form_dob [simp]: "strptime (form_date_of_birth example_form) = Some (Date 2010 1 1)"
  unfolding example_form_def by code_simp

lemma example_form_cdate [simp]:
  "strptime (form_confirmation_date example_form) = Some (Date 2023 5 1)"
  unfolding example_form_def by code_simp

text \<open>
  C6. An update of an existing record with dates that parse succeeds; a get of the same
  id then shows the trimmed new field values with the id and created_at of before, and
  every other record is as it was.
\<close>

theorem update_then_get:
  assumes "login_required request = Inr ()" and "validate_csrf request token = Inr ()"
    and "db_get d record_id = Some r"
    and "strptime (form_date_of_birth f) = Some dob"
    and "strptime (form_confirmation_date f) = Some cdate"
  shows "\<exists>d'. run_request request d (update_confirmation request record_id f token d)
               = (Inr (RedirectResponse (''/confirmations/'' @ str_int record_id) 303), request, d')
           \<and> db_get d' record_id = Some (updated r f dob cdate)
           \<and> rec_id (updated r f dob cdate) = record_id
           \<and> created_at (updated r f dob cdate) = created_at r
           \<and> view_confirmation request record_id new_csrf d'
               = Inr (TemplateResponse ''confirmation_detail.html''
                        [(''record'', VRecord (updated r f dob cdate)), (''csrf_token'', VStr new_csrf)] 200,
                      generate_csrf_token request new_csrf, d')
           \<and> (\<forall>j. j \<noteq> record_id \<longrightarrow> db_get d' j = db_get d j)
           \<and> filter (\<lambda>x. rec_id x \<noteq> record_id) (confirmations d')
               = filter (\<lambda>x. rec_id x \<noteq> record_id) (confirmations d)
           \<and> map rec_id (confirmations d') = map rec_id (confirmations d)
           \<and> users d' = users d"
proof -
  have id: "rec_id r = record_id" using assms(3) by (rule db_get_rec_id)
  let ?r' = "updated r f dob cdate"
  let ?d' = "d\<lparr>confirmations := map (\<lambda>x. if rec_id x = record_id then ?r' else x) (confirmations d)\<rparr>"
  have r': "r\<lparr>full_name := strip (form_full_name f), date_of_birth := dob,
              confirmation_date := cdate, church_name := strip (form_church_name f),
              priest_name := strip (form_priest_name f), sponsor_name := strip (form_sponsor_name f),
              remarks := strip (form_remarks f)\<rparr> = ?r'"
    by (simp add: updated_def)
  have run: "update_confirmation request record_id f token d
               = Inr (RedirectResponse (''/confirmations/'' @ str_int record_id) 303, request, ?d')"
    using assms by (simp add: update_confirmation_def parse_date_def r' Let_def)
  have rid: "rec_id ?r' = record_id" using id by (simp add: updated_def)
  have get: "db_get ?d' record_id = Some ?r'"
    using assms(3) rid by (simp add: db_get_def find_map_same)
  have other: "\<forall>j. j \<noteq> record_id \<longrightarrow> db_get ?d' j = db_get d j"
    using rid by (simp add: db_get_def find_map_other)
  have frame: "filter (\<lambda>x. rec_id x \<noteq> record_id) (confirmations ?d')
                 = filter (\<lambda>x. rec_id x \<noteq> record_id) (confirmations d)"
    using rid by (simp add: filter_map_other)
  have ids: "map rec_id (confirmations ?d') = map rec_id (confirmations d)"
    using rid by (simp add: comp_def)
  have view: "view_confirmation request record_id new_csrf ?d'
               = Inr (TemplateResponse ''confirmation_detail.html''
                        [(''record'', VRecord ?r'), (''csrf_token'', VStr new_csrf)] 200,
                      generate_csrf_token request new_csrf, ?d')"
    using assms(1) get by (simp add: view_confirmation_def)
  have "run_request request d (update_confirmation request record_id f token d)
               = (Inr (RedirectResponse (''/confirmations/'' @ str_int record_id) 303), request, ?d')"
    by (simp add: run run_request_def)
  moreover have "created_at ?r' = created_at r" by (simp add: updated_def)
  moreover have "users ?d' = users d" by simp
  ultimately show ?thesis
    using get rid view other frame ids by blast
qed

theorem update_then_get_witness:
  "login_required example_request = Inr () \<and> validate_csrf example_request ''tok'' = Inr ()
   \<and> db_get example_db 1 = Some example_record
   \<and> strptime (form_date_of_birth example_form) = Some (Date 2010 1 1)
   \<and> strptime (form_confirmation_date example_form) = Some (Date 2023 5 1)
   \<and> (\<exists>d'. run_request example_request example_db
               (update_confirmation example_request 1 example_form ''tok'' example_db)
             = (Inr (RedirectResponse (''/confirmations/'' @ str_int 1) 303), example_request, d')
         \<and> db_get d' 1 = Some (updated example_record example_form (Date 2010 1 1) (Date 2023 5 1))
         \<and> church_name (updated example_record example_form (Date 2010 1 1) (Date 2023 5 1))
             = ''St. Mary''
         \<and> created_at (updated example_record example_form (Date 2010 1 1) (Date 2023 5 1))
             = created_at example_record)"
proof -
  have s: "strip (form_church_name example_form) = ''St. Mary''"
    unfolding example_form_def by code_simp
  obtain d' where
    "run_request example_request example_db
         (update_confirmation example_request 1 example_form ''tok'' example_db)
       = (Inr (RedirectResponse (''/confirmations/'' @ str_int 1) 303), example_request, d')"
    "db_get d' 1 = Some (updated example_record example_form (Date 2010 1 1) (Date 2023 5 1))"
    using update_then_get [OF example_request_login example_request_csrf example_db_get
        example_form_dob example_form_cdate]
    by blast
  then show ?thesis
    by (auto simp: updated_def s)
qed





subsection \<open>Validation on create and update\<close>

text \<open>
  C1, as amended. A create or update request (logged in, token valid, for an update the
  id stored) is not checked for empty fields. It fails, persisting nothing, exactly when
  one of the two date fields does not parse, with a ValidationError that names the first
  such field; otherwise it stores the text fields trimmed, whatever they are, so that a
  whitespace-only name is stored as the empty string.
\<close>

theorem create_update_validation:
  assumes "login_required request = Inr ()" and "validate_csrf request token = Inr ()"
  shows "run_request request d (create_confirmation request f token now d) =
           (case strptime (form_date_of_birth f) of
              None \<Rightarrow> (Inl (ValidationError ''date_of_birth''), request, d)
            | Some dob \<Rightarrow>
               (case strptime (form_confirmation_date f) of
                  None \<Rightarrow> (Inl (ValidationError ''confirmation_date''), request, d)
                | Some cdate \<Rightarrow>
                    (Inr (RedirectResponse ''/confirmations'' 303), request,
                     d\<lparr>confirmations := confirmations d
                          @ [created (next_id (confirmations d)) f dob cdate now]\<rparr>)))
       \<and> (\<forall>r. db_get d record_id = Some r \<longrightarrow>
            run_request request d (update_confirmation request record_id f token d) =
              (case strptime (form_date_of_birth f) of
                 None \<Rightarrow> (Inl (ValidationError ''date_of_birth''), request, d)
               | Some dob \<Rightarrow>
                  (case strptime (form_confirmation_date f) of
                     None \<Rightarrow> (Inl (ValidationError ''confirmation_date''), request, d)
                   | Some cdate \<Rightarrow>
                       (Inr (RedirectResponse (''/confirmations/'' @ str_int record_id) 303), request,
                        d\<lparr>confirmations :=
                            map (\<lambda>x. if rec_id x = record_id then updated r f dob cdate else x)
                              (confirmations d)\<rparr>))))"
  using assms
  by (auto simp: create_confirmation_def update_confirmation_def run_request_def parse_date_def
      created_def updated_def Let_def split: option.splits)

theorem create_update_validation_witness:
  "login_required example_request = Inr () \<and> validate_csrf example_request ''tok'' = Inr ()
   \<and> db_get example_db 1 = Some example_record
   \<and> run_request example_request example_db
        (create_confirmation example_request example_form ''tok'' example_now example_db)
       = (Inr (RedirectResponse ''/confirmations'' 303), example_request,
          example_db\<lparr>confirmations := confirmations example_db
             @ [created 2 example_form (Date 2010 1 1) (Date 2023 5 1) example_now]\<rparr>)
   \<and> run_request example_request example_db
        (update_confirmation example_request 1 example_form ''tok'' example_db)
       = (Inr (RedirectResponse (''/confirmations/'' @ str_int 1) 303), example_request,
          example_db\<lparr>confirmations :=
             [updated example_record example_form (Date 2010 1 1) (Date 2023 5 1)]\<rparr>)"
proof -
  have n: "next_id (confirmations example_db) = 2"
    by (simp add: next_id_def example_db_def example_record_def)
  show ?thesis
    using create_update_validation [OF example_request_login example_request_csrf,
        of example_db example_form example_now 1]
    by (simp add: n) (simp add: example_db_def example_record_def)
qed

text \<open>
  The claim as it stands fails on a name of three spaces: the record is created, its
  name empty.
\<close>

theorem blank_name_stored_counterexample:
  "strip (form_full_name blank_form) = []
   \<and> run_request example_request empty_db
       (create_confirmation example_request blank_form ''tok'' example_now empty_db)
     = (Inr (RedirectResponse ''/confirmations'' 303), example_request,
        \<lparr>users = [],
         confirmations =
           [\<lparr>rec_id = 1, full_name = [], date_of_birth = Date 2010 1 1,
             confirmation_date = Date 2023 5 1, church_name = ''St. Mary'',
             priest_name = ''Fr. John'', sponsor_name = [], remarks = [],
             created_at = example_now\<rparr>]\<rparr>)"
proof -
  have 1: "strptime (form_date_of_birth blank_form) = Some (Date 2010 1 1)"
    unfolding blank_form_def example_form_def by code_simp
  have 2: "strptime (form_confirmation_date blank_form) = Some (Date 2023 5 1)"
    unfolding blank_form_def example_form_def by code_simp
  have 3: "strip (form_full_name blank_form) = []"
    unfolding blank_form_def example_form_def by code_simp
  have 4: "strip (form_church_name blank_form) = ''St. Mary''"
    unfolding blank_form_def example_form_def by code_simp
  have 5: "strip (form_priest_name blank_form) = ''Fr. John''"
    unfolding blank_form_def example_form_def by code_simp
  have 6: "strip (form_sponsor_name blank_form) = []" "strip (form_remarks blank_form) = []"
    unfolding blank_form_def example_form_def by code_simp+
  show ?thesis
    by (simp add: create_confirmation_def run_request_def parse_date_def 1 2 3 4 5 6
        empty_db_def next_id_def)
qed

subsection \<open>Password verification\<close>

lemma encode_utf8_dollar: "CHR ''$'' \<in> set (encode_utf8 s) \<longleftrightarrow> CHR ''$'' \<in> set s"
proof (induction s)
  case Nil
  then show ?case by (simp add: encode_utf8_def)
next
  case (Cons c s)
  have a: "char_of (192 + (of_char c :: nat) div 64) \<noteq> CHR ''$''"
  proof
    assume "char_of (192 + (of_char c :: nat) div 64) = CHR ''$''"
    then have "(of_char (char_of (192 + (of_char c :: nat) div 64) :: char) :: nat) = of_char CHR ''$''"
      by simp
    moreover have "(of_char c :: nat) < 256" by simp
    ultimately show False by (simp add: of_char_of) 
  qed
  have b: "char_of (128 + (of_char c :: nat) mod 64) \<noteq> CHR ''$''"
  proof
    assume "char_of (128 + (of_char c :: nat) mod 64) = CHR ''$''"
    then have "(of_char (char_of (128 + (of_char c :: nat) mod 64) :: char) :: nat) = of_char CHR ''$''"
      by simp
    then show False by (simp add: of_char_of) 
  qed
  have "CHR ''$'' \<in> set (encode_utf8 [c]) \<longleftrightarrow> c = CHR ''$''"
    using a b by (auto simp: encode_utf8_def Let_def)
  moreover have "encode_utf8 (c # s) = encode_utf8 [c] @ encode_utf8 s"
    by (simp add: encode_utf8_def)
  ultimately show ?case using Cons by auto
qed

text \<open>
  C3, as amended. \<^verbatim>\<open>verify_password\<close> has no exception handler: it returns what
  \<^verbatim>\<open>bcrypt.checkpw\<close> returns on the UTF-8 encodings of password and hash, and raises
  what it raises. On a hash string without \<^verbatim>\<open>$\<close>, which is no bcrypt hash, that is
  the ValueError of bcrypt, not the answer false.
\<close>

theorem verify_password_propagates:
  "verify_password bcrypt password hashed_password =
     (if CHR ''$'' \<in> set hashed_password
      then bcrypt (encode_utf8 password) (encode_utf8 hashed_password)
      else Inl ValueError)"
  by (simp add: verify_password_def checkpw_def encode_utf8_dollar)

text \<open>
  The claim as it stands fails on the hash string \<^verbatim>\<open>not-a-hash\<close>: whatever the rest of
  bcrypt does, the call raises.
\<close>

theorem verify_password_raises_counterexample:
  "\<forall>bcrypt. verify_password bcrypt ''secret'' ''not-a-hash'' = Inl ValueError"
  by (simp add: verify_password_def checkpw_def encode_utf8_dollar)

subsection \<open>CSV export\<close>





subsection \<open>Search\<close>

lemma of_char_lower_char:
  "(of_char (lower_char c) :: nat) =
     (if 65 \<le> (of_char c :: nat) \<and> (of_char c :: nat) \<le> 90 then of_char c + 32 else of_char c)"
  by (simp add: lower_char_def Let_def of_char_of)

lemma char_eq_of_char: "c = d \<longleftrightarrow> (of_char c :: nat) = of_char d"
  by (simp add: of_char_eq_iff)

lemma lower_char_idem [simp]: "lower_char (lower_char c) = lower_char c"
  by (simp add: char_eq_of_char of_char_lower_char)

lemma lower_char_percent [simp]: "lower_char c = CHR ''%'' \<longleftrightarrow> c = CHR ''%''"
  by (simp add: char_eq_of_char of_char_lower_char)

lemma lower_char_underscore [simp]: "lower_char c = CHR ''_'' \<longleftrightarrow> c = CHR ''_''"
  by (simp add: char_eq_of_char of_char_lower_char)

lemma percent_lower_char [simp]: "CHR ''%'' = lower_char c \<longleftrightarrow> c = CHR ''%''"
  by (simp add: char_eq_of_char of_char_lower_char)

lemma underscore_lower_char [simp]: "CHR ''_'' = lower_char c \<longleftrightarrow> c = CHR ''_''"
  by (simp add: char_eq_of_char of_char_lower_char)

lemma like_percent [simp]: "like ''%'' s"
  by (induction s) simp_all



lemma contains_ci_drop:
  "contains_ci t s \<longleftrightarrow> (\<exists>k\<le>length s. starts_with_ci t (drop k s))"
proof (induction s)
  case Nil
  then show ?case by (auto simp: starts_with_ci_def)
next
  case (Cons c ts)
  have "(\<exists>k\<le>length (c # ts). starts_with_ci t (drop k (c # ts)))
        \<longleftrightarrow> starts_with_ci t (c # ts) \<or> (\<exists>k\<le>length ts. starts_with_ci t (drop k ts))"
  proof
    assume "\<exists>k\<le>length (c # ts). starts_with_ci t (drop k (c # ts))"
    then obtain k where k: "k \<le> length (c # ts)" "starts_with_ci t (drop k (c # ts))" by blast
    show "starts_with_ci t (c # ts) \<or> (\<exists>k\<le>length ts. starts_with_ci t (drop k ts))"
    proof (cases k)
      case 0
      then show ?thesis using k by simp
    next
      case (Suc j)
      then show ?thesis using k by auto
    qed
  next
    assume "starts_with_ci t (c # ts) \<or> (\<exists>k\<le>length ts. starts_with_ci t (drop k ts))"
    then show "\<exists>k\<le>length (c # ts). starts_with_ci t (drop k (c # ts))"
    proof
      assume "starts_with_ci t (c # ts)"
      then have "starts_with_ci t (drop 0 (c # ts))" by simp
      then show ?thesis by blast
    next
      assume "\<exists>k\<le>length ts. starts_with_ci t (drop k ts)"
      then obtain k where "k \<le> length ts" "starts_with_ci t (drop k ts)" by blast
      then have "Suc k \<le> length (c # ts)" "starts_with_ci t (drop (Suc k) (c # ts))" by simp_all
      then show ?thesis by blast
    qed
  qed
  then show ?case using Cons by simp
qed


lemma starts_with_ci_lower [simp]:
  "starts_with_ci (map lower_char t) (map lower_char s) \<longleftrightarrow> starts_with_ci t s"
  by (simp add: starts_with_ci_def take_map comp_def)

lemma contains_ci_lower [simp]:
  "contains_ci (map lower_char t) (map lower_char s) \<longleftrightarrow> contains_ci t s"
  by (simp add: contains_ci_drop drop_map)

lemma no_wildcards_lower [simp]: "no_wildcards (map lower_char t) \<longleftrightarrow> no_wildcards t"
  by (auto simp: no_wildcards_def image_iff)


lemma contains_ci_meaning:
  "contains_ci t s \<longleftrightarrow> (\<exists>pre post. map lower_char s = pre @ map lower_char t @ post)"
proof
  assume "contains_ci t s"
  then obtain k where k: "k \<le> length s" "starts_with_ci t (drop k s)"
    by (auto simp: contains_ci_drop)
  let ?n = "length t"
  have "take ?n (drop k s) @ drop ?n (drop k s) = drop k s" by (rule append_take_drop_id)
  moreover have "take k s @ drop k s = s" by (rule append_take_drop_id)
  ultimately have "s = take k s @ take ?n (drop k s) @ drop ?n (drop k s)" by simp
  then have "map lower_char s
      = map lower_char (take k s) @ map lower_char (take ?n (drop k s)) @ map lower_char (drop ?n (drop k s))"
    by (metis map_append)
  then show "\<exists>pre post. map lower_char s = pre @ map lower_char t @ post"
    using k(2) by (auto simp: starts_with_ci_def)
next
  assume "\<exists>pre post. map lower_char s = pre @ map lower_char t @ post"
  then obtain pre post where e: "map lower_char s = pre @ map lower_char t @ post" by blast
  let ?k = "length pre"
  have len: "length s = length pre + length t + length post"
    using e by (metis length_append length_map add.assoc)
  have "drop ?k (map lower_char s) = map lower_char t @ post" using e by simp
  then have "take (length t) (drop ?k (map lower_char s)) = map lower_char t" by simp
  then have "map lower_char (take (length t) (drop ?k s)) = map lower_char t"
    by (simp add: take_map drop_map)
  then have "starts_with_ci t (drop ?k s)" using len by (simp add: starts_with_ci_def)
  moreover have "?k \<le> length s" using len by simp
  ultimately show "contains_ci t s" by (auto simp: contains_ci_drop)
qed







text \<open>The query does not fix the order of two records with the same confirmation date.\<close>

lemma equal_dates_either_order:
  "confirmation_date a = confirmation_date b \<Longrightarrow>
   order_by_desc_all [a, b] [a, b] \<and> order_by_desc_all [a, b] [b, a]"
  by (simp add: order_by_desc_all_def date_le_def)

subsection \<open>Date parsing\<close>


lemma not_isdigit_dash [simp]: "\<not> isdigit CHR ''-''"
  by (simp add: isdigit_def)

lemma not_isdigit_space [simp]: "\<not> isdigit CHR '' ''"
  by (simp add: isdigit_def)






















end
